theory Spec2Isabelle
  imports Complex_Main "HOL-Library.Sublist"
begin

section \<open>Products, cart lines and the shared store\<close>

text \<open>
  A \<open>Product\<close> object is mutable and shared: the inventory and every cart line hold a
  reference to the same object, and the cart updates \<open>stock\<close> through that reference.
  Objects are therefore kept in a store indexed by reference, and a cart line holds the
  reference, not a copy. The field \<open>id\<close> of the source is \<open>pid\<close> here, \<open>name\<close> is
  \<open>pname\<close>. Prices and amounts of money are Python floats in the source; they are
  idealised as reals, so rounding, infinities and NaN are outside this model. Quantities
  and stock are Python integers.
\<close>

type_synonym ref = nat

record Product =
  pid :: int
  pname :: string
  price :: real
  stock :: int
  category :: string

record CartItem =
  product :: ref
  quantity :: int

text \<open>
  \<open>Discount\<close> is a class without fields. \<open>Cart.discount_amount\<close> returns either the
  float computed by \<open>apply_discount\<close> or the result of the comparison
  \<open>self.discount == 0\<close>, a Python \<open>bool\<close>; arithmetic on a \<open>bool\<close> reads it as 0 or 1.
\<close>

datatype Discount = Discount

datatype pynum = PyFloat real | PyBool bool

fun as_real :: "pynum \<Rightarrow> real" where
  "as_real (PyFloat x) = x"
| "as_real (PyBool b) = (if b then 1 else 0)"

text \<open>
  The console output is modelled for the messages that the properties below speak
  about: the low-stock alert of \<open>check_low_stock\<close> (product and the stock it prints),
  the confirmation of a removal printed by \<open>remove_item\<close> (quantity removed, product,
  quantity left on the line), the refusal printed by \<open>new_sale\<close> to a cashier who asks
  for a removal, and the receipt (cashier, lines, subtotal, tax, discount, total, payment,
  change). Every other message is represented by the value the function returns.
\<close>

datatype event =
    LowStockAlert ref int
  | Removed int ref int
  | AccessDenied
  | Receipt string "CartItem list" real real pynum real real real

datatype error = InvalidQuantity | InsufficientStock | ItemNotFound | ExcessiveRemoval

text \<open>
  \<open>add_item\<close> and \<open>remove_item\<close> return \<open>True\<close> or \<open>False\<close>; the kind of failure
  is the message printed before \<open>False\<close> is returned.
\<close>

datatype result = Success | Failure error

record cart_state =
  store :: "ref \<Rightarrow> Product"
  items :: "CartItem list"
  discount :: Discount
  out :: "event list"

definition empty_cart :: "(ref \<Rightarrow> Product) \<Rightarrow> cart_state" where
  "empty_cart h = \<lparr>store = h, items = [], discount = Discount, out = []\<rparr>"

definition clear :: "cart_state \<Rightarrow> cart_state" where
  "clear s = s\<lparr>items := []\<rparr>"

definition emit :: "event \<Rightarrow> cart_state \<Rightarrow> cart_state" where
  "emit e s = s\<lparr>out := out s @ [e]\<rparr>"

definition check_low_stock :: "ref \<Rightarrow> cart_state \<Rightarrow> cart_state" where
  "check_low_stock p s =
     (if stock (store s p) \<le> 5 then emit (LowStockAlert p (stock (store s p))) s else s)"

definition add_stock :: "ref \<Rightarrow> int \<Rightarrow> cart_state \<Rightarrow> cart_state" where
  "add_stock p n s = s\<lparr>store := (store s)(p := (store s p)\<lparr>stock := stock (store s p) + n\<rparr>)\<rparr>"

section \<open>Cart.add_item\<close>

text \<open>
  The loop of \<open>add_item\<close> returns inside its first iteration whose line has the
  product's id, so it is the search for the first such line.
\<close>

fun find_line :: "(ref \<Rightarrow> Product) \<Rightarrow> int \<Rightarrow> CartItem list \<Rightarrow> nat option" where
  "find_line h k [] = None"
| "find_line h k (it # its) =
     (if pid (h (product it)) = k then Some 0 else map_option Suc (find_line h k its))"

text \<open>
  The quantity is an \<open>int\<close>, so the \<open>isinstance\<close> test of the source holds and only
  the sign is tested.
\<close>

definition add_item :: "ref \<Rightarrow> int \<Rightarrow> cart_state \<Rightarrow> result \<times> cart_state" where
  "add_item p q s =
     (if q \<le> 0 then (Failure InvalidQuantity, s)
      else case find_line (store s) (pid (store s p)) (items s) of
        Some i \<Rightarrow>
          (let item = items s ! i;
               total_quantity = quantity item + q
           in if total_quantity > stock (store s p) then (Failure InsufficientStock, s)
              else
                let s1 = s\<lparr>items := (items s)[i := item\<lparr>quantity := total_quantity\<rparr>]\<rparr>;
                    s2 = check_low_stock (product item) s1;
                    s3 = add_stock p (- q) s2;
                    s4 = check_low_stock p s3
                in (Success, s4))
      | None \<Rightarrow>
          if q > stock (store s p) then (Failure InsufficientStock, s)
          else
            let s1 = s\<lparr>items := items s @ [\<lparr>product = p, quantity = q\<rparr>]\<rparr>;
                s2 = add_stock p (- q) s1;
                s3 = check_low_stock p s2
            in (Success, s3))"

section \<open>Cart.remove_item\<close>

text \<open>
  \<open>remove_item\<close> walks a copy of the list and does not stop at the first line with
  the id: every such line is treated, and a line that asks for more than it holds
  returns at once, after whatever the earlier lines already changed. The lines of the
  cart are distinct objects (each is created by \<open>add_item\<close>), so removing a line
  by identity removes that very line: the live list is the lines kept so far followed by
  the lines still to visit. The quantity to remove is not tested for its sign.
\<close>

fun remove_scan ::
  "int \<Rightarrow> int \<Rightarrow> CartItem list \<Rightarrow> CartItem list \<Rightarrow> bool \<Rightarrow> cart_state \<Rightarrow> result \<times> cart_state" where
  "remove_scan k q kept [] removed s =
     (if removed then Success else Failure ItemNotFound, s\<lparr>items := kept\<rparr>)"
| "remove_scan k q kept (item # rest) removed s =
     (if pid (store s (product item)) = k then
        if q > quantity item then (Failure ExcessiveRemoval, s\<lparr>items := kept @ item # rest\<rparr>)
        else
          let s1 = add_stock (product item) q s;
              s2 = check_low_stock (product item) s1;
              item' = item\<lparr>quantity := quantity item - q\<rparr>;
              kept' = (if quantity item' = 0 then kept else kept @ [item']);
              s3 = emit (Removed q (product item) (quantity item')) s2;
              s4 = check_low_stock (product item) s3
          in remove_scan k q kept' rest True s4
      else remove_scan k q (kept @ [item]) rest removed s)"

definition remove_item :: "int \<Rightarrow> int \<Rightarrow> cart_state \<Rightarrow> result \<times> cart_state" where
  "remove_item k q s = remove_scan k q [] (items s) False s"

definition get_all_items :: "cart_state \<Rightarrow> (ref \<times> int) list" where
  "get_all_items s = map (\<lambda>item. (product item, quantity item)) (items s)"

definition is_empty :: "cart_state \<Rightarrow> bool" where
  "is_empty s \<longleftrightarrow> items s = []"

section \<open>Pricing\<close>

definition total_price :: "(ref \<Rightarrow> Product) \<Rightarrow> CartItem \<Rightarrow> real" where
  "total_price h item = price (h (product item)) * real_of_int (quantity item)"

definition calculate_subtotal :: "cart_state \<Rightarrow> real" where
  "calculate_subtotal s = foldl (\<lambda>acc item. acc + total_price (store s) item) 0 (items s)"

definition apply_discount :: "Discount \<Rightarrow> real \<Rightarrow> real" where
  "apply_discount d subtotal = subtotal * 0.05"

text \<open>
  An instance of a class that defines no \<open>__eq__\<close> is not equal to the integer 0.
\<close>

definition eq_zero :: "Discount \<Rightarrow> bool" where
  "eq_zero d = False"

definition discount_amount :: "cart_state \<Rightarrow> real \<Rightarrow> pynum" where
  "discount_amount s subtotal =
     (if subtotal \<ge> 5000 then PyFloat (apply_discount (discount s) subtotal)
      else PyBool (eq_zero (discount s)))"

definition recalculate_total :: "real \<Rightarrow> cart_state \<Rightarrow> real \<times> real \<times> pynum \<times> real" where
  "recalculate_total tax_rate s =
     (let subtotal = calculate_subtotal s;
          tax = subtotal * tax_rate;
          discount = discount_amount s subtotal;
          total = (subtotal + tax) - as_real discount
      in (subtotal, tax, discount, total))"

section \<open>Cancelling a sale\<close>

text \<open>
  \<open>POS.cancel_sale\<close> touches only the cart and the products its lines refer to.
\<close>

definition cancel_sale :: "cart_state \<Rightarrow> cart_state" where
  "cancel_sale s = clear (foldl (\<lambda>s' item. add_stock (product item) (quantity item) s') s (items s))"

section \<open>The register: users, console and checkout\<close>

record User =
  username :: string
  password :: string
  role :: string

definition has_permission :: "User \<Rightarrow> string \<Rightarrow> bool" where
  "has_permission u required_role \<longleftrightarrow> role u = required_role"

text \<open>
  The register reads lines from the console. The conversions \<open>int\<close> and \<open>float\<close> and
  the string methods \<open>lower\<close> and \<open>strip\<close> belong to Python, not to this program; they
  are parameters of the model. A conversion that raises \<open>ValueError\<close> yields \<open>None\<close>.
\<close>

record pylib =
  py_int :: "string \<Rightarrow> int option"
  py_float :: "string \<Rightarrow> real option"
  py_lower :: "string \<Rightarrow> string"
  py_strip :: "string \<Rightarrow> string"

text \<open>
  The dictionary \<open>inventory\<close> maps a product id to the product object, in insertion
  order; \<open>users\<close> maps a user name to the user. The products themselves live in the
  store of the cart state, with the console output.
\<close>

record POS =
  tax_rate :: real
  users :: "string \<rightharpoonup> User"
  current_user :: "User option"
  inventory :: "(int \<times> ref) list"
  cart :: cart_state

text \<open>
  A call returns a value, the new state and the lines not yet read; or it is left by an
  exception that nothing catches: \<open>EOFError\<close> when the console has no line left,
  \<open>AttributeError\<close> when \<open>current_user\<close> is \<open>None\<close> where a user is needed. The
  menus loop and call each other for as long as the operator goes on; the recursion is
  bounded by a counter, and \<open>OutOfFuel\<close> says that the bound was reached.
\<close>

datatype exc = EOFError | AttributeError

datatype 'a outcome = Return 'a POS "string list" | Raise exc POS | OutOfFuel

text \<open>Python's \<open>a in b\<close> on strings: \<open>a\<close> occurs in \<open>b\<close> as a contiguous run.\<close>

fun is_substr :: "string \<Rightarrow> string \<Rightarrow> bool" where
  "is_substr q [] = (q = [])"
| "is_substr q (c # cs) = (prefix q (c # cs) \<or> is_substr q cs)"

definition matches :: "pylib \<Rightarrow> POS \<Rightarrow> string \<Rightarrow> ref \<Rightarrow> bool" where
  "matches L pos query r \<longleftrightarrow>
     is_substr query (py_lower L (pname (store (cart pos) r))) \<or>
     is_substr query (py_lower L (category (store (cart pos) r)))"

definition search_products :: "pylib \<Rightarrow> POS \<Rightarrow> string \<Rightarrow> ref list" where
  "search_products L pos query =
     filter (matches L pos (py_lower L query)) (map snd (inventory pos))"

definition add_item_to_cart :: "pylib \<Rightarrow> POS \<Rightarrow> string list \<Rightarrow> unit outcome" where
  "add_item_to_cart L pos ins =
     (case ins of [] \<Rightarrow> Raise EOFError pos
      | l0 # ins1 \<Rightarrow>
        let search_query = py_strip L l0 in
        if search_query \<noteq> [] \<and> search_products L pos search_query = [] then Return () pos ins1
        else
          (case ins1 of [] \<Rightarrow> Raise EOFError pos
           | l1 # ins2 \<Rightarrow>
             (case py_int L l1 of None \<Rightarrow> Return () pos ins2
              | Some product_id \<Rightarrow>
                (case map_of (inventory pos) product_id of None \<Rightarrow> Return () pos ins2
                 | Some p \<Rightarrow>
                   (case ins2 of [] \<Rightarrow> Raise EOFError pos
                    | l2 # ins3 \<Rightarrow>
                      (case py_int L l2 of None \<Rightarrow> Return () pos ins3
                       | Some qty \<Rightarrow>
                         if qty \<le> 0 then Return () pos ins3
                         else Return () (pos\<lparr>cart := snd (add_item p qty (cart pos))\<rparr>) ins3))))))"

definition admin_login :: "pylib \<Rightarrow> POS \<Rightarrow> string list \<Rightarrow> bool outcome" where
  "admin_login L pos ins =
     (case ins of [] \<Rightarrow> Raise EOFError pos
      | l0 # ins1 \<Rightarrow>
        (case ins1 of [] \<Rightarrow> Raise EOFError pos
         | l1 # ins2 \<Rightarrow>
           (case users pos (py_strip L l0) of
              None \<Rightarrow> Return False pos ins2
            | Some user \<Rightarrow>
                if password user = py_strip L l1 \<and> has_permission user ''admin''
                then Return True (pos\<lparr>current_user := Some user\<rparr>) ins2
                else Return False pos ins2)))"

definition print_receipt ::
  "POS \<Rightarrow> real \<Rightarrow> real \<Rightarrow> pynum \<Rightarrow> real \<Rightarrow> real \<Rightarrow> real \<Rightarrow> string list \<Rightarrow> bool outcome" where
  "print_receipt pos subtotal tax disc total_due payment change ins =
     (case current_user pos of None \<Rightarrow> Raise AttributeError pos
      | Some u \<Rightarrow>
          Return True
            (pos\<lparr>cart := clear (emit (Receipt (username u) (items (cart pos))
                                           subtotal tax disc total_due payment change) (cart pos))\<rparr>)
            ins)"

definition new_cart :: "POS \<Rightarrow> POS" where
  "new_cart pos = pos\<lparr>cart := (cart pos)\<lparr>items := [], discount := Discount\<rparr>\<rparr>"

definition cart_matches :: "pylib \<Rightarrow> POS \<Rightarrow> string \<Rightarrow> (ref \<times> int) list" where
  "cart_matches L pos search_query =
     filter (\<lambda>(p, qty). matches L pos (py_lower L search_query) p) (get_all_items (cart pos))"

text \<open>
  \<open>view_cart\<close> and \<open>show_inventory\<close> only print and are left out. \<open>new_sale_loop\<close>
  is the loop of \<open>new_sale\<close>, \<open>checkout_loop\<close> the outer loop of \<open>checkout\<close> (one
  payment entry per round) and \<open>payment_options\<close> its inner loop (the choice offered
  after a payment that falls short). \<open>remove_item_fr_cart\<close> returns \<open>None\<close> after a
  malformed number; its callers only test the value for truth, so \<open>None\<close> is \<open>False\<close>
  here.

  These six call each other. Each body below is written against a record \<open>self\<close> of
  the six methods it may call; \<open>bounded\<close> then ties them together, giving every call
  one unit less of the counter than its caller has.
\<close>

record methods =
  call_new_sale :: "POS \<Rightarrow> string list \<Rightarrow> unit outcome"
  call_new_sale_loop :: "POS \<Rightarrow> string list \<Rightarrow> unit outcome"
  call_remove_item_fr_cart :: "POS \<Rightarrow> string list \<Rightarrow> bool outcome"
  call_checkout :: "POS \<Rightarrow> string list \<Rightarrow> bool outcome"
  call_checkout_loop :: "POS \<Rightarrow> string list \<Rightarrow> bool outcome"
  call_payment_options :: "POS \<Rightarrow> string list \<Rightarrow> bool outcome"

definition new_sale_body :: "pylib \<Rightarrow> methods \<Rightarrow> POS \<Rightarrow> string list \<Rightarrow> unit outcome" where
  "new_sale_body L self pos ins = call_new_sale_loop self (new_cart pos) ins"

definition new_sale_loop_body :: "pylib \<Rightarrow> methods \<Rightarrow> POS \<Rightarrow> string list \<Rightarrow> unit outcome" where
  "new_sale_loop_body L self pos ins =
     (case ins of [] \<Rightarrow> Raise EOFError pos
      | l0 # ins1 \<Rightarrow>
        let choice = py_strip L l0 in
        if choice = ''1'' then
          (case add_item_to_cart L pos ins1 of
             Return u pos1 ins2 \<Rightarrow> call_new_sale_loop self pos1 ins2
           | Raise e p \<Rightarrow> Raise e p
           | OutOfFuel \<Rightarrow> OutOfFuel)
        else if choice = ''2'' then
          (case current_user pos of None \<Rightarrow> Raise AttributeError pos
           | Some u \<Rightarrow>
               if has_permission u ''admin'' then
                 (case call_remove_item_fr_cart self pos ins1 of
                    Return removed pos1 ins2 \<Rightarrow> call_new_sale_loop self pos1 ins2
                  | Raise e p \<Rightarrow> Raise e p
                  | OutOfFuel \<Rightarrow> OutOfFuel)
               else call_new_sale_loop self (pos\<lparr>cart := emit AccessDenied (cart pos)\<rparr>) ins1)
        else if choice = ''3'' then call_new_sale_loop self pos ins1
        else if choice = ''4'' then
          (case call_checkout self pos ins1 of
             Return finished pos1 ins2 \<Rightarrow>
               if finished then Return () pos1 ins2 else call_new_sale_loop self pos1 ins2
           | Raise e p \<Rightarrow> Raise e p
           | OutOfFuel \<Rightarrow> OutOfFuel)
        else if choice = ''5'' then
          (case ins1 of [] \<Rightarrow> Raise EOFError pos
           | ans # ins2 \<Rightarrow>
               if py_lower L ans = ''yes''
               then Return () (pos\<lparr>cart := cancel_sale (cart pos)\<rparr>) ins2
               else call_new_sale_loop self pos ins2)
        else call_new_sale_loop self pos ins1)"

definition remove_item_fr_cart_body ::
  "pylib \<Rightarrow> methods \<Rightarrow> POS \<Rightarrow> string list \<Rightarrow> bool outcome" where
  "remove_item_fr_cart_body L self pos ins =
     (if is_empty (cart pos) then Return False pos ins
      else
        (case ins of [] \<Rightarrow> Raise EOFError pos
         | l0 # ins1 \<Rightarrow>
           let search_query = py_strip L l0 in
           if search_query \<noteq> [] \<and> cart_matches L pos search_query = [] then Return False pos ins1
           else
             (case ins1 of [] \<Rightarrow> Raise EOFError pos
              | l1 # ins2 \<Rightarrow>
                (case py_int L l1 of None \<Rightarrow> Return False pos ins2
                 | Some product_id \<Rightarrow>
                   (case ins2 of [] \<Rightarrow> Raise EOFError pos
                    | l2 # ins3 \<Rightarrow>
                      (case py_int L l2 of None \<Rightarrow> Return False pos ins3
                       | Some qty \<Rightarrow>
                         let success = fst (remove_item product_id qty (cart pos));
                             pos1 = pos\<lparr>cart := snd (remove_item product_id qty (cart pos))\<rparr>
                         in if success = Success then
                              if is_empty (cart pos1) then
                                (case call_new_sale self pos1 ins3 of
                                   Return u pos2 ins4 \<Rightarrow> Return True pos2 ins4
                                 | Raise e p \<Rightarrow> Raise e p
                                 | OutOfFuel \<Rightarrow> OutOfFuel)
                              else Return True pos1 ins3
                            else Return False pos1 ins3))))))"

definition checkout_body :: "pylib \<Rightarrow> methods \<Rightarrow> POS \<Rightarrow> string list \<Rightarrow> bool outcome" where
  "checkout_body L self pos ins =
     (if is_empty (cart pos) then Return False pos ins else call_checkout_loop self pos ins)"

definition checkout_loop_body :: "pylib \<Rightarrow> methods \<Rightarrow> POS \<Rightarrow> string list \<Rightarrow> bool outcome" where
  "checkout_loop_body L self pos ins =
     (case recalculate_total (tax_rate pos) (cart pos) of
        (subtotal, tax, disc, total_due) \<Rightarrow>
          (case ins of [] \<Rightarrow> Raise EOFError pos
           | l0 # ins1 \<Rightarrow>
             (case py_float L l0 of None \<Rightarrow> call_checkout_loop self pos ins1
              | Some payment \<Rightarrow>
                  if payment < total_due then call_payment_options self pos ins1
                  else print_receipt pos subtotal tax disc total_due payment (payment - total_due) ins1)))"

definition payment_options_body ::
  "pylib \<Rightarrow> methods \<Rightarrow> POS \<Rightarrow> string list \<Rightarrow> bool outcome" where
  "payment_options_body L self pos ins =
     (case ins of [] \<Rightarrow> Raise EOFError pos
      | choice # ins1 \<Rightarrow>
        if choice = ''1'' then call_checkout_loop self pos ins1
        else if choice = ''2'' then
          (case current_user pos of None \<Rightarrow> Raise AttributeError pos
           | Some u \<Rightarrow>
               if \<not> has_permission u ''admin'' then
                 (case ins1 of [] \<Rightarrow> Raise EOFError pos
                  | ans # ins2 \<Rightarrow>
                      if py_lower L ans \<in> {''yes'', ''y''} then
                        let original_user = current_user pos in
                        (case admin_login L pos ins2 of
                           Return logged_in pos1 ins3 \<Rightarrow>
                             if logged_in then
                               (case call_remove_item_fr_cart self pos1 ins3 of
                                  Return removed pos2 ins4 \<Rightarrow>
                                    let pos3 = pos2\<lparr>current_user := original_user\<rparr> in
                                    if removed then call_checkout_loop self pos3 ins4
                                    else call_payment_options self pos3 ins4
                                | Raise e p \<Rightarrow> Raise e p
                                | OutOfFuel \<Rightarrow> OutOfFuel)
                             else call_payment_options self pos1 ins3
                         | Raise e p \<Rightarrow> Raise e p
                         | OutOfFuel \<Rightarrow> OutOfFuel)
                      else call_payment_options self pos ins2)
               else
                 (case call_remove_item_fr_cart self pos ins1 of
                    Return removed pos1 ins2 \<Rightarrow>
                      if removed then call_checkout_loop self pos1 ins2 else Return False pos1 ins2
                  | Raise e p \<Rightarrow> Raise e p
                  | OutOfFuel \<Rightarrow> OutOfFuel))
        else if choice = ''3'' then
          (case ins1 of [] \<Rightarrow> Raise EOFError pos
           | ans # ins2 \<Rightarrow>
               if py_lower L ans \<in> {''yes'', ''y''}
               then Return True (pos\<lparr>cart := cancel_sale (cart pos)\<rparr>) ins2
               else Return False pos ins2)
        else Return False pos ins1)"

primrec bounded :: "pylib \<Rightarrow> nat \<Rightarrow> methods" where
  "bounded L 0 =
     \<lparr>call_new_sale = (\<lambda>pos ins. OutOfFuel),
      call_new_sale_loop = (\<lambda>pos ins. OutOfFuel),
      call_remove_item_fr_cart = (\<lambda>pos ins. OutOfFuel),
      call_checkout = (\<lambda>pos ins. OutOfFuel),
      call_checkout_loop = (\<lambda>pos ins. OutOfFuel),
      call_payment_options = (\<lambda>pos ins. OutOfFuel)\<rparr>"
| "bounded L (Suc n) =
     \<lparr>call_new_sale = new_sale_body L (bounded L n),
      call_new_sale_loop = new_sale_loop_body L (bounded L n),
      call_remove_item_fr_cart = remove_item_fr_cart_body L (bounded L n),
      call_checkout = checkout_body L (bounded L n),
      call_checkout_loop = checkout_loop_body L (bounded L n),
      call_payment_options = payment_options_body L (bounded L n)\<rparr>"

definition new_sale :: "pylib \<Rightarrow> nat \<Rightarrow> POS \<Rightarrow> string list \<Rightarrow> unit outcome" where
  "new_sale L n = call_new_sale (bounded L n)"

definition remove_item_fr_cart :: "pylib \<Rightarrow> nat \<Rightarrow> POS \<Rightarrow> string list \<Rightarrow> bool outcome" where
  "remove_item_fr_cart L n = call_remove_item_fr_cart (bounded L n)"

definition checkout :: "pylib \<Rightarrow> nat \<Rightarrow> POS \<Rightarrow> string list \<Rightarrow> bool outcome" where
  "checkout L n = call_checkout (bounded L n)"

definition new_sale_loop :: "pylib \<Rightarrow> nat \<Rightarrow> POS \<Rightarrow> string list \<Rightarrow> unit outcome" where
  "new_sale_loop L n = call_new_sale_loop (bounded L n)"

definition checkout_loop :: "pylib \<Rightarrow> nat \<Rightarrow> POS \<Rightarrow> string list \<Rightarrow> bool outcome" where
  "checkout_loop L n = call_checkout_loop (bounded L n)"

definition payment_options :: "pylib \<Rightarrow> nat \<Rightarrow> POS \<Rightarrow> string list \<Rightarrow> bool outcome" where
  "payment_options L n = call_payment_options (bounded L n)"

section \<open>Login and the main menu\<close>

text \<open>
  \<open>login\<close> gives three attempts. \<open>login_attempts\<close> is its loop, on the attempts
  that are left; the loop is never entered with none left, where the source would fall
  out of the \<open>while\<close> and return \<open>None\<close>.
\<close>

fun login_attempts :: "pylib \<Rightarrow> nat \<Rightarrow> POS \<Rightarrow> string list \<Rightarrow> bool outcome" where
  "login_attempts L 0 pos ins = Return False pos ins"
| "login_attempts L (Suc attempts) pos ins =
     (case ins of [] \<Rightarrow> Raise EOFError pos
      | l0 # ins1 \<Rightarrow>
        (case ins1 of [] \<Rightarrow> Raise EOFError pos
         | l1 # ins2 \<Rightarrow>
           (case (case users pos (py_strip L l0) of
                    None \<Rightarrow> None
                  | Some user \<Rightarrow> if password user = py_strip L l1 then Some user else None) of
              Some user \<Rightarrow> Return True (pos\<lparr>current_user := Some user\<rparr>) ins2
            | None \<Rightarrow>
                if attempts = 0 then Return False pos ins2
                else login_attempts L attempts pos ins2)))"

definition login :: "pylib \<Rightarrow> POS \<Rightarrow> string list \<Rightarrow> bool outcome" where
  "login L pos ins = login_attempts L 3 pos ins"

text \<open>
  \<open>run\<close> logs in and then shows the main menu in two nested loops: the outer one
  opens a new cart, the inner one reads a choice. \<open>main_menu_body\<close> is one round of
  the inner loop, \<open>self\<close> the rounds that follow; the \<open>break\<close> after a logout whose
  login failed goes on with a new cart and no current user. Choices 2 and 4 only print.
\<close>

definition main_menu_body ::
  "pylib \<Rightarrow> nat \<Rightarrow> (POS \<Rightarrow> string list \<Rightarrow> unit outcome) \<Rightarrow> POS \<Rightarrow> string list \<Rightarrow> unit outcome" where
  "main_menu_body L n self pos ins =
     (case ins of [] \<Rightarrow> Raise EOFError pos
      | l0 # ins1 \<Rightarrow>
        let choice = py_strip L l0 in
        if choice = ''1'' then
          (case new_sale L n pos ins1 of
             Return u pos1 ins2 \<Rightarrow> self pos1 ins2
           | Raise e p \<Rightarrow> Raise e p
           | OutOfFuel \<Rightarrow> OutOfFuel)
        else if choice = ''2'' then self pos ins1
        else if choice = ''3'' then
          (case checkout L n pos ins1 of
             Return finished pos1 ins2 \<Rightarrow> self pos1 ins2
           | Raise e p \<Rightarrow> Raise e p
           | OutOfFuel \<Rightarrow> OutOfFuel)
        else if choice = ''4'' then self pos ins1
        else if choice = ''5'' then
          (case login L (pos\<lparr>current_user := None\<rparr>) ins1 of
             Return logged_in pos1 ins2 \<Rightarrow>
               if logged_in then self pos1 ins2 else self (new_cart pos1) ins2
           | Raise e p \<Rightarrow> Raise e p
           | OutOfFuel \<Rightarrow> OutOfFuel)
        else if choice = ''6'' then Return () pos ins1
        else self pos ins1)"

primrec main_menu :: "pylib \<Rightarrow> nat \<Rightarrow> POS \<Rightarrow> string list \<Rightarrow> unit outcome" where
  "main_menu L 0 = (\<lambda>pos ins. OutOfFuel)"
| "main_menu L (Suc n) = main_menu_body L n (main_menu L n)"

definition run :: "pylib \<Rightarrow> nat \<Rightarrow> POS \<Rightarrow> string list \<Rightarrow> unit outcome" where
  "run L n pos ins =
     (case login L pos ins of
        Return logged_in pos1 ins1 \<Rightarrow>
          if logged_in then main_menu L n (new_cart pos1) ins1 else Return () pos1 ins1
      | Raise e p \<Rightarrow> Raise e p
      | OutOfFuel \<Rightarrow> OutOfFuel)"

section \<open>Reachable carts and their invariants\<close>

text \<open>
  A cart is opened without lines over the store \<open>h0\<close> of the catalogue, whatever the
  console shows by then, and changes only through \<open>add_item\<close> and \<open>remove_item\<close>,
  whatever these return.
\<close>

inductive reachable :: "(ref \<Rightarrow> Product) \<Rightarrow> cart_state \<Rightarrow> bool" for h0 where
  opened: "store s = h0 \<Longrightarrow> items s = [] \<Longrightarrow> reachable h0 s"
| added: "reachable h0 s \<Longrightarrow> reachable h0 (snd (add_item p q s))"
| removed: "reachable h0 s \<Longrightarrow> reachable h0 (snd (remove_item k q s))"

text \<open>The catalogue gives every product object its own id.\<close>

definition unique_ids :: "(ref \<Rightarrow> Product) \<Rightarrow> bool" where
  "unique_ids h \<longleftrightarrow> (\<forall>r1 r2. pid (h r1) = pid (h r2) \<longrightarrow> r1 = r2)"

definition line_ids :: "cart_state \<Rightarrow> int list" where
  "line_ids s = map (\<lambda>it. pid (store s (product it))) (items s)"

definition lines_ok :: "cart_state \<Rightarrow> bool" where
  "lines_ok s \<longleftrightarrow> distinct (line_ids s) \<and> (\<forall>it\<in>set (items s). 0 < quantity it)"

text \<open>The quantity that the lines of a cart hold of the product object \<open>r\<close>.\<close>

definition held :: "CartItem list \<Rightarrow> ref \<Rightarrow> int" where
  "held xs r = sum_list (map quantity (filter (\<lambda>it. product it = r) xs))"

definition conserved :: "(ref \<Rightarrow> Product) \<Rightarrow> cart_state \<Rightarrow> bool" where
  "conserved h0 s \<longleftrightarrow> (\<forall>r. store s r = (h0 r)\<lparr>stock := stock (h0 r) - held (items s) r\<rparr>)"

text \<open>What a successful removal of \<open>q\<close> units from the line of \<open>r\<close> does to stock and console.\<close>

definition after_remove :: "ref \<Rightarrow> int \<Rightarrow> int \<Rightarrow> cart_state \<Rightarrow> cart_state" where
  "after_remove r q left s =
     check_low_stock r (emit (Removed q r left) (check_low_stock r (add_stock r q s)))"

text \<open>What a call printed, and the low-stock alerts among it.\<close>

definition printed :: "cart_state \<Rightarrow> cart_state \<Rightarrow> event list" where
  "printed s s' = drop (length (out s)) (out s')"

fun is_alert :: "event \<Rightarrow> bool" where
  "is_alert (LowStockAlert p n) = True"
| "is_alert e = False"

definition alerts :: "cart_state \<Rightarrow> cart_state \<Rightarrow> event list" where
  "alerts s s' = filter is_alert (printed s s')"

section \<open>A shelf and some carts, for concrete runs\<close>

text \<open>
  Every object \<open>r\<close> of the shelf has the id \<open>r\<close>. Object 101 is the rice of the
  inventory (480.00, 25 in stock), object 103 the bread (600.00, 30 in stock).
\<close>

definition shelf :: "ref \<Rightarrow> Product" where
  "shelf r =
     (if r = 103
      then \<lparr>pid = int r, pname = ''Bread'', price = 600, stock = 30, category = ''Groceries''\<rparr>
      else \<lparr>pid = int r, pname = ''Rice (5lb)'', price = 480, stock = 25, category = ''Groceries''\<rparr>)"

definition rice :: "int \<Rightarrow> event list \<Rightarrow> cart_state" where
  "rice n console =
     \<lparr>store = shelf(101 := (shelf 101)\<lparr>stock := 25 - n\<rparr>),
      items = [\<lparr>product = 101, quantity = n\<rparr>],
      discount = Discount,
      out = console\<rparr>"

definition bread :: "int \<Rightarrow> cart_state" where
  "bread n =
     \<lparr>store = shelf(103 := (shelf 103)\<lparr>stock := 30 - n\<rparr>),
      items = [\<lparr>product = 103, quantity = n\<rparr>],
      discount = Discount,
      out = []\<rparr>"

text \<open>
  A console whose lines arrive stripped and in lower case, and which reads the few
  numerals typed in the runs below; a register with the administrator and a cashier of
  the source, and the rice and the bread in its inventory.
\<close>

definition console :: pylib where
  "console =
     \<lparr>py_int = (\<lambda>l. if l = ''101'' then Some 101 else if l = ''1'' then Some 1
                     else if l = ''2'' then Some 2 else None),
      py_float = (\<lambda>l. if l = ''6000'' then Some 6000 else if l = ''0'' then Some 0 else None),
      py_lower = (\<lambda>l. l),
      py_strip = (\<lambda>l. l)\<rparr>"

definition admin :: User where
  "admin = \<lparr>username = ''admin'', password = ''admin123'', role = ''admin''\<rparr>"

definition adowner :: User where
  "adowner = \<lparr>username = ''adowner'', password = ''moneyo'', role = ''cashier''\<rparr>"

definition register :: "cart_state \<Rightarrow> POS" where
  "register c =
     \<lparr>tax_rate = 0.10,
      users = [''admin'' \<mapsto> admin, ''adowner'' \<mapsto> adowner],
      current_user = Some adowner,
      inventory = [(101, 101), (103, 103)],
      cart = c\<rparr>"

text \<open>
  The shelf with the padlock of the inventory as object 45 (400.00, 5 in stock), and a
  cart that holds \<open>n\<close> padlocks. The register as \<open>POS.__init__\<close> leaves it: nobody
  logged in.
\<close>

definition lock_shelf :: "ref \<Rightarrow> Product" where
  "lock_shelf =
     shelf(45 := \<lparr>pid = 45, pname = ''Unmaster Lock Padlock'', price = 400, stock = 5,
                   category = ''General''\<rparr>)"

definition padlock :: "int \<Rightarrow> event list \<Rightarrow> cart_state" where
  "padlock n shown =
     \<lparr>store = lock_shelf(45 := (lock_shelf 45)\<lparr>stock := 5 - n\<rparr>),
      items = [\<lparr>product = 45, quantity = n\<rparr>],
      discount = Discount,
      out = shown\<rparr>"

definition unattended :: "cart_state \<Rightarrow> POS" where
  "unattended c = (register c)\<lparr>current_user := None\<rparr>"

section \<open>Basic facts about the cart operations\<close>

lemma pid_add_stock [simp]: "pid (store (add_stock p n s) r) = pid (store s r)"
  by (simp add: add_stock_def)

lemma items_add_stock [simp]: "items (add_stock p n s) = items s"
  by (simp add: add_stock_def)

lemma out_add_stock [simp]: "out (add_stock p n s) = out s"
  by (simp add: add_stock_def)

lemma store_add_stock:
  "store (add_stock p n s) = (store s)(p := (store s p)\<lparr>stock := stock (store s p) + n\<rparr>)"
  by (simp add: add_stock_def)

lemma stock_add_stock [simp]:
  "stock (store (add_stock p n s) r) = (if r = p then stock (store s r) + n else stock (store s r))"
  by (simp add: add_stock_def)

lemma store_emit [simp]: "store (emit e s) = store s"
  by (simp add: emit_def)

lemma items_emit [simp]: "items (emit e s) = items s"
  by (simp add: emit_def)

lemma out_emit [simp]: "out (emit e s) = out s @ [e]"
  by (simp add: emit_def)

lemma emit_items_update [simp]: "emit e (s\<lparr>items := xs\<rparr>) = (emit e s)\<lparr>items := xs\<rparr>"
  by (simp add: emit_def)

lemma store_check_low_stock [simp]: "store (check_low_stock p s) = store s"
  by (simp add: check_low_stock_def)

lemma items_check_low_stock [simp]: "items (check_low_stock p s) = items s"
  by (simp add: check_low_stock_def)

lemma out_check_low_stock:
  "out (check_low_stock p s) =
     out s @ (if stock (store s p) \<le> 5 then [LowStockAlert p (stock (store s p))] else [])"
  by (simp add: check_low_stock_def)

lemma check_low_stock_items_update [simp]:
  "check_low_stock p (s\<lparr>items := xs\<rparr>) = (check_low_stock p s)\<lparr>items := xs\<rparr>"
  by (simp add: check_low_stock_def)

lemma add_stock_items_update [simp]:
  "add_stock p n (s\<lparr>items := xs\<rparr>) = (add_stock p n s)\<lparr>items := xs\<rparr>"
  by (simp add: add_stock_def)

lemma add_stock_back [simp]:
  "store s' = store (add_stock p (- q) s) \<Longrightarrow> store (add_stock p q s') = store s"
  by (auto simp: store_add_stock fun_eq_iff)

lemma store_after_remove [simp]: "store (after_remove r q left s) = store (add_stock r q s)"
  by (simp add: after_remove_def)

lemma out_after_remove:
  "out (after_remove r q left s) =
     out s @ (if stock (store s r) + q \<le> 5 then [LowStockAlert r (stock (store s r) + q)] else [])
           @ [Removed q r left]
           @ (if stock (store s r) + q \<le> 5 then [LowStockAlert r (stock (store s r) + q)] else [])"
  by (simp add: after_remove_def out_check_low_stock)

lemma held_Nil [simp]: "held [] r = 0"
  by (simp add: held_def)

lemma held_Cons [simp]: "held (x # xs) r = (if product x = r then quantity x else 0) + held xs r"
  by (simp add: held_def)

lemma held_append [simp]: "held (xs @ ys) r = held xs r + held ys r"
  by (simp add: held_def)

subsection \<open>The search of \<open>add_item\<close>\<close>

lemma find_line_None: "find_line h k xs = None \<longleftrightarrow> (\<forall>it\<in>set xs. pid (h (product it)) \<noteq> k)"
  by (induction xs) auto

lemma find_line_Some:
  "find_line h k xs = Some i \<Longrightarrow>
     \<exists>pre item post. xs = pre @ item # post \<and> length pre = i \<and> pid (h (product item)) = k
        \<and> (\<forall>it\<in>set pre. pid (h (product it)) \<noteq> k)"
proof (induction xs arbitrary: i)
  case Nil
  then show ?case by simp
next
  case (Cons a xs)
  show ?case
  proof (cases "pid (h (product a)) = k")
    case True
    with Cons.prems have "i = 0" by simp
    with True show ?thesis by (intro exI[of _ "[]"] exI[of _ a] exI[of _ xs]) simp
  next
    case False
    with Cons.prems obtain j where j: "find_line h k xs = Some j" "i = Suc j" by auto
    from Cons.IH[OF j(1)] obtain pre item post where
      "xs = pre @ item # post" "length pre = j" "pid (h (product item)) = k"
      "\<forall>it\<in>set pre. pid (h (product it)) \<noteq> k" by blast
    with False j(2) show ?thesis
      by (intro exI[of _ "a # pre"] exI[of _ item] exI[of _ post]) simp
  qed
qed

text \<open>The three ways in which \<open>add_item\<close> ends.\<close>

lemma add_item_cases:
  assumes "add_item p q s = (r, s')"
  obtains (fail) e where "r = Failure e" "s' = s"
  | (new) "r = Success" "0 < q" "q \<le> stock (store s p)"
      "\<forall>it\<in>set (items s). pid (store s (product it)) \<noteq> pid (store s p)"
      "s' = check_low_stock p (add_stock p (- q) (s\<lparr>items := items s @ [\<lparr>product = p, quantity = q\<rparr>]\<rparr>))"
  | (existing) pre item post where "r = Success" "0 < q" "items s = pre @ item # post"
      "pid (store s (product item)) = pid (store s p)"
      "\<forall>it\<in>set pre. pid (store s (product it)) \<noteq> pid (store s p)"
      "quantity item + q \<le> stock (store s p)"
      "s' = check_low_stock p (add_stock p (- q) (check_low_stock (product item)
              (s\<lparr>items := pre @ item\<lparr>quantity := quantity item + q\<rparr> # post\<rparr>)))"
proof (cases "q \<le> 0")
  case True
  with assms show ?thesis by (auto simp: add_item_def intro: fail)
next
  case pos: False
  show ?thesis
  proof (cases "find_line (store s) (pid (store s p)) (items s)")
    case None
    show ?thesis
    proof (cases "q > stock (store s p)")
      case True
      with assms pos None show ?thesis by (auto simp: add_item_def intro: fail)
    next
      case False
      with assms pos None have "r = Success"
        "s' = check_low_stock p (add_stock p (- q) (s\<lparr>items := items s @ [\<lparr>product = p, quantity = q\<rparr>]\<rparr>))"
        by (auto simp: add_item_def Let_def)
      moreover from None have "\<forall>it\<in>set (items s). pid (store s (product it)) \<noteq> pid (store s p)"
        by (simp add: find_line_None)
      ultimately show ?thesis using pos False by (intro new) auto
    qed
  next
    case (Some i)
    from find_line_Some[OF Some] obtain pre item post where
      d: "items s = pre @ item # post" "length pre = i"
         "pid (store s (product item)) = pid (store s p)"
         "\<forall>it\<in>set pre. pid (store s (product it)) \<noteq> pid (store s p)" by blast
    have nth: "items s ! i = item" using d(1,2) by auto
    have upd: "\<And>v. (items s)[i := v] = pre @ v # post" using d(1,2) by auto
    show ?thesis
    proof (cases "quantity item + q > stock (store s p)")
      case True
      with assms pos Some nth show ?thesis by (auto simp: add_item_def Let_def intro: fail)
    next
      case False
      with assms pos Some nth upd have "r = Success"
        "s' = check_low_stock p (add_stock p (- q) (check_low_stock (product item)
              (s\<lparr>items := pre @ item\<lparr>quantity := quantity item + q\<rparr> # post\<rparr>)))"
        by (auto simp: add_item_def Let_def)
      then show ?thesis using pos False d by (intro existing) auto
    qed
  qed
qed

subsection \<open>The scan of \<open>remove_item\<close>\<close>

lemma remove_scan_nomatch:
  "\<forall>it\<in>set todo. pid (store s (product it)) \<noteq> k \<Longrightarrow>
   remove_scan k q kept todo removed s =
     (if removed then Success else Failure ItemNotFound, s\<lparr>items := kept @ todo\<rparr>)"
  by (induction todo arbitrary: kept) auto

lemma remove_scan_single:
  assumes "\<forall>it\<in>set pre. pid (store s (product it)) \<noteq> k"
    and "pid (store s (product item)) = k"
    and "\<forall>it\<in>set post. pid (store s (product it)) \<noteq> k"
  shows "remove_scan k q kept (pre @ item # post) removed s =
     (if q > quantity item then (Failure ExcessiveRemoval, s\<lparr>items := kept @ pre @ item # post\<rparr>)
      else (Success, (after_remove (product item) q (quantity item - q) s)
             \<lparr>items := kept @ pre @ (if quantity item - q = 0 then [] else [item\<lparr>quantity := quantity item - q\<rparr>]) @ post\<rparr>))"
  using assms
proof (induction pre arbitrary: kept)
  case Nil
  then show ?case
    by (simp add: Let_def remove_scan_nomatch after_remove_def)
next
  case (Cons a pre)
  then show ?case by simp
qed

text \<open>On a cart with one line per id, \<open>remove_item\<close> ends in one of two ways.\<close>

lemma remove_item_cases:
  assumes "remove_item k q s = (r, s')" and "distinct (line_ids s)"
  obtains (fail) e where "r = Failure e" "s' = s"
  | (ok) pre item post where "r = Success" "items s = pre @ item # post"
      "pid (store s (product item)) = k" "q \<le> quantity item"
      "\<forall>it\<in>set pre. pid (store s (product it)) \<noteq> k"
      "\<forall>it\<in>set post. pid (store s (product it)) \<noteq> k"
      "s' = (after_remove (product item) q (quantity item - q) s)
             \<lparr>items := pre @ (if quantity item - q = 0 then [] else [item\<lparr>quantity := quantity item - q\<rparr>]) @ post\<rparr>"
proof (cases "\<exists>it\<in>set (items s). pid (store s (product it)) = k")
  case False
  then have "remove_item k q s = (Failure ItemNotFound, s)"
    by (simp add: remove_item_def remove_scan_nomatch)
  with assms show ?thesis by (auto intro: fail)
next
  case True
  from split_list_first_prop[OF True] obtain pre item post where
    d: "items s = pre @ item # post" "pid (store s (product item)) = k"
       "\<forall>it\<in>set pre. pid (store s (product it)) \<noteq> k" by blast
  from assms(2) d(1,2) have post: "\<forall>it\<in>set post. pid (store s (product it)) \<noteq> k"
    by (auto simp: line_ids_def image_iff)
  note rs = remove_scan_single[OF d(3) d(2) post, of q "[]" False]
  show ?thesis
  proof (cases "q > quantity item")
    case True
    with rs d(1) assms(1) show ?thesis by (auto simp: remove_item_def intro: fail)
  next
    case False
    with rs d(1) assms(1) have "r = Success"
      "s' = (after_remove (product item) q (quantity item - q) s)
             \<lparr>items := pre @ (if quantity item - q = 0 then [] else [item\<lparr>quantity := quantity item - q\<rparr>]) @ post\<rparr>"
      by (auto simp: remove_item_def)
    then show ?thesis using d post False by (intro ok) auto
  qed
qed

subsection \<open>Invariants of reachable carts\<close>

lemma lines_ok_add_item:
  assumes "lines_ok s"
  shows "lines_ok (snd (add_item p q s))"
proof -
  obtain r s' where a: "add_item p q s = (r, s')" by (cases "add_item p q s")
  from a have "lines_ok s'"
  proof (cases rule: add_item_cases)
    case (fail e)
    with assms show ?thesis by simp
  next
    case new
    with assms show ?thesis by (auto simp: lines_ok_def line_ids_def)
  next
    case (existing pre item post)
    with assms show ?thesis by (auto simp: lines_ok_def line_ids_def)
  qed
  with a show ?thesis by simp
qed

lemma lines_ok_remove_item:
  assumes "lines_ok s"
  shows "lines_ok (snd (remove_item k q s))"
proof -
  obtain r s' where a: "remove_item k q s = (r, s')" by (cases "remove_item k q s")
  from assms have d: "distinct (line_ids s)" by (simp add: lines_ok_def)
  from a d have "lines_ok s'"
  proof (cases rule: remove_item_cases)
    case (fail e)
    with assms show ?thesis by simp
  next
    case (ok pre item post)
    with assms show ?thesis by (auto simp: lines_ok_def line_ids_def)
  qed
  with a show ?thesis by simp
qed

lemma reachable_lines_ok: "reachable h0 s \<Longrightarrow> lines_ok s"
proof (induction rule: reachable.induct)
  case (opened s)
  then show ?case by (simp add: lines_ok_def line_ids_def)
next
  case (added s p q)
  then show ?case by (simp add: lines_ok_add_item)
next
  case (removed s k q)
  then show ?case by (simp add: lines_ok_remove_item)
qed

lemma reachable_distinct: "reachable h0 s \<Longrightarrow> distinct (line_ids s)"
  using reachable_lines_ok by (simp add: lines_ok_def)

lemma conserved_pid: "conserved h0 s \<Longrightarrow> pid (store s r) = pid (h0 r)"
  by (simp add: conserved_def)

lemma conserved_same_object:
  "conserved h0 s \<Longrightarrow> unique_ids h0 \<Longrightarrow> pid (store s r1) = pid (store s r2) \<Longrightarrow> r1 = r2"
  by (simp add: conserved_pid unique_ids_def)

lemma conserved_add_item:
  assumes "conserved h0 s" and "unique_ids h0"
  shows "conserved h0 (snd (add_item p q s))"
proof -
  obtain r s' where a: "add_item p q s = (r, s')" by (cases "add_item p q s")
  from a have "conserved h0 s'"
  proof (cases rule: add_item_cases)
    case (fail e)
    with assms show ?thesis by simp
  next
    case new
    with assms(1) show ?thesis by (auto simp: conserved_def add_stock_def)
  next
    case (existing pre item post)
    from conserved_same_object[OF assms existing(4)] have "product item = p" .
    with existing assms(1) show ?thesis by (auto simp: conserved_def add_stock_def)
  qed
  with a show ?thesis by simp
qed

lemma conserved_remove_item:
  assumes "conserved h0 s" and "lines_ok s"
  shows "conserved h0 (snd (remove_item k q s))"
proof -
  obtain r s' where a: "remove_item k q s = (r, s')" by (cases "remove_item k q s")
  from assms have d: "distinct (line_ids s)" by (simp add: lines_ok_def)
  from a d have "conserved h0 s'"
  proof (cases rule: remove_item_cases)
    case (fail e)
    with assms show ?thesis by simp
  next
    case (ok pre item post)
    with assms(1) show ?thesis by (auto simp: conserved_def add_stock_def)
  qed
  with a show ?thesis by simp
qed

lemma reachable_conserved: "reachable h0 s \<Longrightarrow> unique_ids h0 \<Longrightarrow> conserved h0 s"
proof (induction rule: reachable.induct)
  case (opened s)
  then show ?case by (auto simp: conserved_def)
next
  case (added s p q)
  then show ?case by (simp add: conserved_add_item)
next
  case (removed s k q)
  then show ?case by (simp add: conserved_remove_item reachable_lines_ok)
qed

lemma distinct_filter_le1: "distinct (map f xs) \<Longrightarrow> length (filter (\<lambda>x. f x = k) xs) \<le> 1"
proof (induction xs)
  case Nil
  show ?case by simp
next
  case (Cons a xs)
  show ?case
  proof (cases "f a = k")
    case True
    with Cons.prems have "filter (\<lambda>x. f x = k) xs = []"
      by (auto simp: filter_empty_conv image_iff)
    with True show ?thesis by simp
  next
    case False
    with Cons show ?thesis by simp
  qed
qed

lemma store_restock:
  "store (foldl (\<lambda>s' item. add_stock (product item) (quantity item) s') s xs) r =
     (store s r)\<lparr>stock := stock (store s r) + held xs r\<rparr>"
  by (induction xs arbitrary: s) (auto simp: add_stock_def)

lemma printed_alerts:
  "\<exists>new. out s' = out s @ new \<and> (filter is_alert new \<noteq> [] \<longleftrightarrow> b) \<Longrightarrow>
     out s' = out s @ printed s s' \<and> (alerts s s' \<noteq> [] \<longleftrightarrow> b)"
  by (auto simp: printed_def alerts_def)

subsection \<open>Concrete carts\<close>

lemma unique_ids_shelf: "unique_ids shelf"
  by (simp add: unique_ids_def shelf_def)

lemma rice_sel:
  "out (rice n c) = c"
  "items (rice n c) = [\<lparr>product = 101, quantity = n\<rparr>]"
  "stock (store (rice n c) 101) = 25 - n"
  "pid (store (rice n c) r) = int r"
  by (simp_all add: rice_def shelf_def)

lemma shelf_add_rice:
  "0 < n \<Longrightarrow> n \<le> 25 \<Longrightarrow>
     add_item 101 n (empty_cart shelf) =
       (Success, rice n (if 25 - n \<le> 5 then [LowStockAlert 101 (25 - n)] else []))"
  by (simp add: add_item_def empty_cart_def shelf_def check_low_stock_def add_stock_def
      rice_def emit_def)

lemma reachable_empty_cart: "reachable h (empty_cart h)"
  by (rule reachable.opened) (simp_all add: empty_cart_def)

lemma reachable_rice_20: "reachable shelf (rice 20 [LowStockAlert 101 5])"
  using reachable.added[OF reachable_empty_cart, of shelf 101 20] by (simp add: shelf_add_rice)

lemma reachable_rice_10: "reachable shelf (rice 10 [])"
  using reachable.added[OF reachable_empty_cart, of shelf 101 10] by (simp add: shelf_add_rice)

lemma rice_10_add_5: "add_item 101 5 (rice 10 []) = (Success, rice 15 [])"
  by (simp add: add_item_def shelf_def check_low_stock_def add_stock_def rice_def)

lemma rice_24_remove_2:
  "remove_item 101 2 (rice 24 [LowStockAlert 101 1]) =
     (Success, rice 22 [LowStockAlert 101 1, LowStockAlert 101 3, Removed 2 101 22,
                        LowStockAlert 101 3])"
  by (simp add: remove_item_def shelf_def check_low_stock_def add_stock_def rice_def emit_def)

section \<open>Properties of the cart\<close>

text \<open>
  C1. For a product that already has a line in the cart, \<open>add_line\<close> should fail with
  InsufficientStock exactly when the newly requested quantity exceeds the stock still
  available, the quantity already reserved by the line not counting against the request.
  The code compares the line's quantity plus the request with the stock that is left:
  with 25 units of rice, of which 20 are in the cart and 5 on the shelf, a request for 3
  more is refused.
\<close>

theorem add_item_counts_reserved_quantity_again:
  "add_item 101 20 (empty_cart shelf) = (Success, rice 20 [LowStockAlert 101 5]) \<and>
   stock (store (rice 20 [LowStockAlert 101 5]) 101) = 5 \<and>
   add_item 101 3 (rice 20 [LowStockAlert 101 5]) =
     (Failure InsufficientStock, rice 20 [LowStockAlert 101 5])"
  by (simp add: shelf_add_rice) (simp add: add_item_def rice_def shelf_def)

text \<open>
  C2. Stock conservation: in every cart reached from the empty cart by \<open>add_item\<close> and
  \<open>remove_item\<close>, over a catalogue whose products have ids of their own, the initial
  stock of each product is its current stock plus the quantity the cart holds of it.
\<close>

theorem stock_conservation:
  "reachable h0 s \<Longrightarrow> unique_ids h0 \<Longrightarrow> stock (h0 r) = stock (store s r) + held (items s) r"
proof -
  assume "reachable h0 s" "unique_ids h0"
  then have "conserved h0 s" by (rule reachable_conserved)
  then have "store s r = (h0 r)\<lparr>stock := stock (h0 r) - held (items s) r\<rparr>"
    by (simp add: conserved_def)
  then show ?thesis by simp
qed

theorem stock_conservation_witness:
  "reachable shelf (rice 20 [LowStockAlert 101 5]) \<and> unique_ids shelf \<and>
   stock (shelf 101) =
     stock (store (rice 20 [LowStockAlert 101 5]) 101) + held (items (rice 20 [LowStockAlert 101 5])) 101 \<and>
   stock (store (rice 20 [LowStockAlert 101 5]) 101) = 5 \<and>
   held (items (rice 20 [LowStockAlert 101 5])) 101 = 20"
  using stock_conservation[OF reachable_rice_20 unique_ids_shelf, of 101]
    reachable_rice_20 unique_ids_shelf
  by (simp add: rice_def)

text \<open>
  C3. Atomicity of failure: on a reachable cart, a call of \<open>add_item\<close> or
  \<open>remove_item\<close> that fails leaves the stock of every product, the lines of the cart
  and the console as they were.
\<close>

theorem failure_atomicity:
  assumes "reachable h0 s"
  shows "(fst (add_item p q s) \<noteq> Success \<longrightarrow> snd (add_item p q s) = s) \<and>
         (fst (remove_item k n s) \<noteq> Success \<longrightarrow> snd (remove_item k n s) = s)"
proof
  obtain r s' where a: "add_item p q s = (r, s')" by (cases "add_item p q s")
  then have "r \<noteq> Success \<longrightarrow> s' = s" by (cases rule: add_item_cases) auto
  with a show "fst (add_item p q s) \<noteq> Success \<longrightarrow> snd (add_item p q s) = s" by simp
next
  obtain r s' where a: "remove_item k n s = (r, s')" by (cases "remove_item k n s")
  from assms have "distinct (line_ids s)" by (rule reachable_distinct)
  with a have "r \<noteq> Success \<longrightarrow> s' = s" by (cases rule: remove_item_cases) auto
  with a show "fst (remove_item k n s) \<noteq> Success \<longrightarrow> snd (remove_item k n s) = s" by simp
qed

theorem failure_atomicity_witness:
  "reachable shelf (rice 20 [LowStockAlert 101 5]) \<and>
   fst (add_item 101 10 (rice 20 [LowStockAlert 101 5])) = Failure InsufficientStock \<and>
   snd (add_item 101 10 (rice 20 [LowStockAlert 101 5])) = rice 20 [LowStockAlert 101 5] \<and>
   fst (remove_item 101 30 (rice 20 [LowStockAlert 101 5])) = Failure ExcessiveRemoval \<and>
   snd (remove_item 101 30 (rice 20 [LowStockAlert 101 5])) = rice 20 [LowStockAlert 101 5]"
proof -
  have a: "fst (add_item 101 10 (rice 20 [LowStockAlert 101 5])) = Failure InsufficientStock"
    by (simp add: add_item_def rice_def shelf_def)
  have b: "fst (remove_item 101 30 (rice 20 [LowStockAlert 101 5])) = Failure ExcessiveRemoval"
    by (simp add: remove_item_def rice_def shelf_def)
  from failure_atomicity[OF reachable_rice_20, of 101 10 101 30] a b reachable_rice_20
  show ?thesis by simp
qed

text \<open>
  C5. Round trip: on a reachable cart over a catalogue with ids of their own, a
  successful \<open>add_item p q\<close> followed at once by \<open>remove_item\<close> of \<open>q\<close> units of the
  id of \<open>p\<close> succeeds and gives back the stock of every product and the lines of the
  cart as they were before the addition; no line of quantity zero is left.
\<close>

theorem add_remove_round_trip:
  assumes "reachable h0 s" and "unique_ids h0" and "add_item p q s = (Success, s1)"
  shows "fst (remove_item (pid (store s1 p)) q s1) = Success \<and>
         store (snd (remove_item (pid (store s1 p)) q s1)) = store s \<and>
         items (snd (remove_item (pid (store s1 p)) q s1)) = items s \<and>
         (\<forall>it\<in>set (items (snd (remove_item (pid (store s1 p)) q s1))). quantity it \<noteq> 0)"
proof -
  from assms(1) have ok: "lines_ok s" by (rule reachable_lines_ok)
  from assms(1,2) have c: "conserved h0 s" by (rule reachable_conserved)
  from ok have pos: "\<forall>it\<in>set (items s). quantity it \<noteq> 0" by (auto simp: lines_ok_def)
  from assms(3) have
    "fst (remove_item (pid (store s1 p)) q s1) = Success \<and>
     store (snd (remove_item (pid (store s1 p)) q s1)) = store s \<and>
     items (snd (remove_item (pid (store s1 p)) q s1)) = items s"
  proof (cases rule: add_item_cases)
    case (fail e)
    then show ?thesis by simp
  next
    case new
    have rs: "remove_scan (pid (store s1 p)) q [] (items s @ \<lparr>product = p, quantity = q\<rparr> # []) False s1 =
       (Success, (after_remove p q 0 s1)\<lparr>items := items s\<rparr>)"
      using new by (subst remove_scan_single) auto
    have st: "store (add_stock p q s1) = store s" using new by simp
    have "remove_item (pid (store s1 p)) q s1 = (Success, (after_remove p q 0 s1)\<lparr>items := items s\<rparr>)"
      using new rs by (simp add: remove_item_def)
    with st show ?thesis by simp
  next
    case (existing pre item post)
    from conserved_same_object[OF c assms(2) existing(4)] have same: "product item = p" .
    from ok existing(3,4) have post: "\<forall>it\<in>set post. pid (store s (product it)) \<noteq> pid (store s p)"
      by (auto simp: lines_ok_def line_ids_def image_iff)
    from ok existing(3) have "0 < quantity item" by (auto simp: lines_ok_def)
    then have rs: "remove_scan (pid (store s1 p)) q [] (pre @ item\<lparr>quantity := quantity item + q\<rparr> # post) False s1 =
       (Success, (after_remove p q (quantity item) s1)\<lparr>items := items s\<rparr>)"
      using existing post same by (subst remove_scan_single) auto
    have st: "store (add_stock p q s1) = store s" using existing same by simp
    have "remove_item (pid (store s1 p)) q s1 =
        (Success, (after_remove p q (quantity item) s1)\<lparr>items := items s\<rparr>)"
      using existing same rs by (simp add: remove_item_def)
    with st show ?thesis by simp
  qed
  with pos show ?thesis by simp
qed

theorem add_remove_round_trip_witness:
  "reachable shelf (rice 10 []) \<and> unique_ids shelf \<and>
   add_item 101 5 (rice 10 []) = (Success, rice 15 []) \<and>
   fst (remove_item 101 5 (rice 15 [])) = Success \<and>
   store (snd (remove_item 101 5 (rice 15 []))) = store (rice 10 []) \<and>
   items (snd (remove_item 101 5 (rice 15 []))) = [\<lparr>product = 101, quantity = 10\<rparr>]"
proof -
  have k: "pid (store (rice 15 []) 101) = 101" by (simp add: rice_def shelf_def)
  have i: "items (rice 10 []) = [\<lparr>product = 101, quantity = 10\<rparr>]" by (simp add: rice_def)
  from add_remove_round_trip[OF reachable_rice_10 unique_ids_shelf rice_10_add_5]
    reachable_rice_10 unique_ids_shelf rice_10_add_5
  show ?thesis unfolding k i by simp
qed

text \<open>
  On a reachable cart over a catalogue with ids of their own, a successful call prints
  some low-stock alert exactly when the stock of the product after the call is at most 5.
\<close>

lemma alert_iff_low_stock:
  assumes "reachable h0 s" and "unique_ids h0"
  shows "(fst (add_item p q s) = Success \<longrightarrow>
            out (snd (add_item p q s)) = out s @ printed s (snd (add_item p q s)) \<and>
            (alerts s (snd (add_item p q s)) \<noteq> [] \<longleftrightarrow>
               stock (store (snd (add_item p q s)) p) \<le> 5)) \<and>
         (fst (remove_item (pid (store s r)) n s) = Success \<longrightarrow>
            out (snd (remove_item (pid (store s r)) n s)) =
              out s @ printed s (snd (remove_item (pid (store s r)) n s)) \<and>
            (alerts s (snd (remove_item (pid (store s r)) n s)) \<noteq> [] \<longleftrightarrow>
               stock (store (snd (remove_item (pid (store s r)) n s)) r) \<le> 5))"
proof (intro conjI impI)
  from assms have c: "conserved h0 s" by (rule reachable_conserved)
  from assms(1) have d: "distinct (line_ids s)" by (rule reachable_distinct)
  have add: "\<exists>new. out s' = out s @ new \<and> (filter is_alert new \<noteq> [] \<longleftrightarrow> stock (store s' p) \<le> 5)"
    if a: "add_item p q s = (Success, s')" for s'
    using a
  proof (cases rule: add_item_cases)
    case (fail e)
    then show ?thesis by simp
  next
    case new
    then show ?thesis by (simp add: out_check_low_stock)
  next
    case (existing pre item post)
    from conserved_same_object[OF c assms(2) existing(4)] have "product item = p" .
    with existing show ?thesis by (simp add: out_check_low_stock)
  qed
  have rem: "\<exists>new. out s' = out s @ new \<and> (filter is_alert new \<noteq> [] \<longleftrightarrow> stock (store s' r) \<le> 5)"
    if a: "remove_item (pid (store s r)) n s = (Success, s')" for s'
    using a d
  proof (cases rule: remove_item_cases)
    case (fail e)
    then show ?thesis by simp
  next
    case (ok pre item post)
    from conserved_same_object[OF c assms(2) ok(3)] have "product item = r" .
    with ok show ?thesis by (simp add: out_after_remove)
  qed
  {
    assume "fst (add_item p q s) = Success"
    then have "add_item p q s = (Success, snd (add_item p q s))"
      by (cases "add_item p q s") simp
    from printed_alerts[OF add[OF this]]
    show "out (snd (add_item p q s)) = out s @ printed s (snd (add_item p q s))"
      and "alerts s (snd (add_item p q s)) \<noteq> [] \<longleftrightarrow> stock (store (snd (add_item p q s)) p) \<le> 5"
      by blast+
  }
  {
    assume "fst (remove_item (pid (store s r)) n s) = Success"
    then have "remove_item (pid (store s r)) n s = (Success, snd (remove_item (pid (store s r)) n s))"
      by (cases "remove_item (pid (store s r)) n s") simp
    from printed_alerts[OF rem[OF this]]
    show "out (snd (remove_item (pid (store s r)) n s)) =
            out s @ printed s (snd (remove_item (pid (store s r)) n s))"
      and "alerts s (snd (remove_item (pid (store s r)) n s)) \<noteq> [] \<longleftrightarrow>
         stock (store (snd (remove_item (pid (store s r)) n s)) r) \<le> 5"
      by blast+
  }
qed

text \<open>
  C6. A successful \<open>add_item\<close> or \<open>remove_item\<close> should print the low-stock alert
  once, for the stock after the call, exactly when that stock is at most 5. The branch
  of \<open>add_item\<close> for a new line does so. \<open>remove_item\<close> calls \<open>check_low_stock\<close>
  twice after it has returned the stock: with 24 units of rice in the cart and 1 on the
  shelf, removing 2 prints the alert for 3 units twice. The branch of \<open>add_item\<close>
  for an existing line calls it once before the stock is reduced and once after: with
  one padlock in the cart and 4 on the shelf, adding one more prints an alert for 4
  units, which is no longer the stock, and then the alert for 3.
\<close>

theorem low_stock_alert_printed_twice:
  "add_item 101 24 (empty_cart shelf) = (Success, rice 24 [LowStockAlert 101 1]) \<and>
   remove_item 101 2 (rice 24 [LowStockAlert 101 1]) =
     (Success, rice 22 [LowStockAlert 101 1,
                        LowStockAlert 101 3, Removed 2 101 22, LowStockAlert 101 3]) \<and>
   add_item 45 1 (empty_cart lock_shelf) = (Success, padlock 1 [LowStockAlert 45 4]) \<and>
   add_item 45 1 (padlock 1 [LowStockAlert 45 4]) =
     (Success, padlock 2 [LowStockAlert 45 4, LowStockAlert 45 4, LowStockAlert 45 3])"
proof -
  have "add_item 45 1 (empty_cart lock_shelf) = (Success, padlock 1 [LowStockAlert 45 4])"
    by (simp add: add_item_def empty_cart_def lock_shelf_def shelf_def check_low_stock_def
        add_stock_def padlock_def emit_def)
  moreover have "add_item 45 1 (padlock 1 [LowStockAlert 45 4]) =
     (Success, padlock 2 [LowStockAlert 45 4, LowStockAlert 45 4, LowStockAlert 45 3])"
    by (simp add: add_item_def lock_shelf_def shelf_def check_low_stock_def
        add_stock_def padlock_def emit_def)
  ultimately show ?thesis by (simp add: shelf_add_rice rice_24_remove_2)
qed

text \<open>
  C8. Cancelling: on a reachable cart over a catalogue with ids of their own,
  \<open>cancel_sale\<close> gives every product the stock it had when the cart was opened and
  leaves the cart without lines.
\<close>

theorem cancel_restores_stock:
  assumes "reachable h0 s" and "unique_ids h0"
  shows "store (cancel_sale s) = h0 \<and> items (cancel_sale s) = []"
proof -
  from assms have c: "conserved h0 s" by (rule reachable_conserved)
  have "store (cancel_sale s) r = h0 r" for r
    using c by (simp add: cancel_sale_def clear_def store_restock conserved_def)
  then show ?thesis by (auto simp: cancel_sale_def clear_def)
qed

theorem cancel_restores_stock_witness:
  "reachable shelf (rice 20 [LowStockAlert 101 5]) \<and> unique_ids shelf \<and>
   stock (store (rice 20 [LowStockAlert 101 5]) 101) = 5 \<and>
   store (cancel_sale (rice 20 [LowStockAlert 101 5])) = shelf \<and>
   items (cancel_sale (rice 20 [LowStockAlert 101 5])) = []"
  using cancel_restores_stock[OF reachable_rice_20 unique_ids_shelf]
    reachable_rice_20 unique_ids_shelf
  by (simp add: rice_def)

text \<open>
  C10. Line uniqueness: a cart reached from the empty cart by \<open>add_item\<close> and
  \<open>remove_item\<close> has at most one line for each product id, so the scan of
  \<open>remove_item\<close> meets at most one line with the id it is given.
\<close>

theorem line_uniqueness:
  "reachable h0 s \<Longrightarrow>
     distinct (map (\<lambda>it. pid (store s (product it))) (items s)) \<and>
     length (filter (\<lambda>it. pid (store s (product it)) = k) (items s)) \<le> 1"
proof -
  assume "reachable h0 s"
  then have d: "distinct (map (\<lambda>it. pid (store s (product it))) (items s))"
    using reachable_distinct by (simp add: line_ids_def)
  from distinct_filter_le1[OF d] d show ?thesis by simp
qed

theorem line_uniqueness_witness:
  "reachable shelf (rice 10 []) \<and>
   distinct (map (\<lambda>it. pid (store (rice 10 []) (product it))) (items (rice 10 []))) \<and>
   length (filter (\<lambda>it. pid (store (rice 10 []) (product it)) = 101) (items (rice 10 []))) \<le> 1"
  using line_uniqueness[OF reachable_rice_10, of 101] reachable_rice_10 by simp

section \<open>Pricing\<close>

text \<open>
  C4. Pricing determinism: for a cart with subtotal S, the discount counts as 0 when
  S is below 5000 and is 0.05 times S when S is at least 5000, and the total is
  S plus the tax rate times S minus the discount. Below the threshold the value
  returned is the Python \<open>False\<close>, which is 0 in the subtraction.
\<close>

theorem pricing_determinism:
  "(calculate_subtotal s < 5000 \<longrightarrow> as_real (discount_amount s (calculate_subtotal s)) = 0) \<and>
   (calculate_subtotal s \<ge> 5000 \<longrightarrow>
      discount_amount s (calculate_subtotal s) = PyFloat (0.05 * calculate_subtotal s)) \<and>
   recalculate_total rate s =
     (calculate_subtotal s,
      calculate_subtotal s * rate,
      discount_amount s (calculate_subtotal s),
      calculate_subtotal s + rate * calculate_subtotal s
        - as_real (discount_amount s (calculate_subtotal s)))"
  by (simp add: discount_amount_def apply_discount_def eq_zero_def recalculate_total_def Let_def
      mult.commute)

lemma subtotal_bread_10: "calculate_subtotal (bread 10) = 6000"
  by (simp add: calculate_subtotal_def total_price_def bread_def shelf_def)

lemma subtotal_rice_10: "calculate_subtotal (rice 10 []) = 4800"
  by (simp add: calculate_subtotal_def total_price_def rice_def shelf_def)

theorem pricing_determinism_witness:
  "calculate_subtotal (bread 10) = 6000 \<and>
   discount_amount (bread 10) 6000 = PyFloat 300 \<and>
   recalculate_total 0.10 (bread 10) = (6000, 600, PyFloat 300, 6300) \<and>
   calculate_subtotal (rice 10 []) = 4800 \<and>
   as_real (discount_amount (rice 10 []) 4800) = 0 \<and>
   recalculate_total 0.10 (rice 10 []) = (4800, 480, PyBool False, 5280)"
proof -
  have b: "discount_amount (bread 10) 6000 = PyFloat 300"
    using pricing_determinism[of "bread 10" "0.10"] by (simp add: subtotal_bread_10)
  have r: "discount_amount (rice 10 []) 4800 = PyBool False"
    by (simp add: discount_amount_def eq_zero_def)
  from pricing_determinism[of "bread 10" "0.10"] pricing_determinism[of "rice 10 []" "0.10"]
  show ?thesis by (simp add: subtotal_bread_10 subtotal_rice_10 b r)
qed

section \<open>The register\<close>

text \<open>The methods of \<open>bounded\<close> are the functions named after them.\<close>

lemma call_bounded [simp]:
  "call_new_sale (bounded L n) = new_sale L n"
  "call_new_sale_loop (bounded L n) = new_sale_loop L n"
  "call_remove_item_fr_cart (bounded L n) = remove_item_fr_cart L n"
  "call_checkout (bounded L n) = checkout L n"
  "call_checkout_loop (bounded L n) = checkout_loop L n"
  "call_payment_options (bounded L n) = payment_options L n"
  by (simp_all add: new_sale_def new_sale_loop_def remove_item_fr_cart_def checkout_def
      checkout_loop_def payment_options_def)

lemma out_of_fuel [simp]:
  "new_sale L 0 pos ins = OutOfFuel"
  "new_sale_loop L 0 pos ins = OutOfFuel"
  "remove_item_fr_cart L 0 pos ins = OutOfFuel"
  "checkout L 0 pos ins = OutOfFuel"
  "checkout_loop L 0 pos ins = OutOfFuel"
  "payment_options L 0 pos ins = OutOfFuel"
  by (simp_all add: new_sale_def new_sale_loop_def remove_item_fr_cart_def checkout_def
      checkout_loop_def payment_options_def)

lemma new_sale_Suc: "new_sale L (Suc n) = new_sale_body L (bounded L n)"
  by (simp add: new_sale_def)

lemma new_sale_loop_Suc: "new_sale_loop L (Suc n) = new_sale_loop_body L (bounded L n)"
  by (simp add: new_sale_loop_def)

lemma remove_item_fr_cart_Suc:
  "remove_item_fr_cart L (Suc n) = remove_item_fr_cart_body L (bounded L n)"
  by (simp add: remove_item_fr_cart_def)

lemma checkout_Suc: "checkout L (Suc n) = checkout_body L (bounded L n)"
  by (simp add: checkout_def)

lemma checkout_loop_Suc: "checkout_loop L (Suc n) = checkout_loop_body L (bounded L n)"
  by (simp add: checkout_loop_def)

lemma payment_options_Suc: "payment_options L (Suc n) = payment_options_body L (bounded L n)"
  by (simp add: payment_options_def)

lemma fuel_numeral:
  "new_sale L (numeral k) = new_sale_body L (bounded L (pred_numeral k))"
  "new_sale_loop L (numeral k) = new_sale_loop_body L (bounded L (pred_numeral k))"
  "remove_item_fr_cart L (numeral k) = remove_item_fr_cart_body L (bounded L (pred_numeral k))"
  "checkout L (numeral k) = checkout_body L (bounded L (pred_numeral k))"
  "checkout_loop L (numeral k) = checkout_loop_body L (bounded L (pred_numeral k))"
  "payment_options L (numeral k) = payment_options_body L (bounded L (pred_numeral k))"
  by (simp_all add: numeral_eq_Suc new_sale_def new_sale_loop_def remove_item_fr_cart_def
      checkout_def checkout_loop_def payment_options_def)

declare bounded.simps [simp del]

lemmas unroll =
  new_sale_Suc new_sale_loop_Suc remove_item_fr_cart_Suc checkout_Suc checkout_loop_Suc
  payment_options_Suc
  new_sale_body_def new_sale_loop_body_def remove_item_fr_cart_body_def checkout_body_def
  checkout_loop_body_def payment_options_body_def

text \<open>
  With a cart that is not empty and a user logged in, a payment that is not below the
  total ends the checkout with \<open>True\<close>: the receipt shows the change, payment minus
  total, the cart is left without lines and the store of the products is the one before
  the payment. Two units of the counter are enough.
\<close>

lemma checkout_commit:
  assumes "items (cart pos) \<noteq> []"
    and "current_user pos = Some u"
    and "py_float L amount = Some payment"
    and "recalculate_total (tax_rate pos) (cart pos) = (subtotal, tax, disc, total_due)"
    and "payment \<ge> total_due"
  shows "checkout L (Suc (Suc n)) pos (amount # ins) =
           Return True
             (pos\<lparr>cart := (cart pos)
                 \<lparr>items := [],
                  out := out (cart pos) @
                    [Receipt (username u) (items (cart pos)) subtotal tax disc total_due
                       payment (payment - total_due)]\<rparr>\<rparr>)
             ins"
  using assms
  by (simp add: unroll is_empty_def print_receipt_def clear_def emit_def)

lemmas run_defs =
  unroll is_empty_def admin_login_def add_item_to_cart_def print_receipt_def register_def
  console_def cart_matches_def search_products_def matches_def get_all_items_def
  remove_item_def add_item_def check_low_stock_def add_stock_def emit_def clear_def
  cancel_sale_def recalculate_total_def calculate_subtotal_def total_price_def
  discount_amount_def eq_zero_def has_permission_def admin_def adowner_def new_cart_def
  rice_def shelf_def empty_cart_def Let_def

text \<open>
  With nobody logged in the same payment is accepted, and \<open>print_receipt\<close> then
  fails on the name of the cashier before it clears the cart: nothing has changed.
\<close>

lemma checkout_without_user:
  assumes "items (cart pos) \<noteq> []"
    and "current_user pos = None"
    and "py_float L amount = Some payment"
    and "recalculate_total (tax_rate pos) (cart pos) = (subtotal, tax, disc, total_due)"
    and "payment \<ge> total_due"
  shows "checkout L (Suc (Suc n)) pos (amount # ins) = Raise AttributeError pos"
  using assms
  by (simp add: unroll is_empty_def print_receipt_def)

lemma main_menu_numeral:
  "main_menu L (numeral k) = main_menu_body L (pred_numeral k) (main_menu L (pred_numeral k))"
  by (simp add: numeral_eq_Suc)

lemma login_three: "login L pos ins = login_attempts L (Suc (Suc (Suc 0))) pos ins"
  by (simp add: login_def numeral_3_eq_3)

text \<open>
  C7. For every cart that is not empty, a payment that is not below the total should
  commit the sale: change is payment minus total, the cart is emptied, no stock changes.
  The register can come to a checkout with nobody logged in. In the run below the
  cashier \<open>adowner\<close> logs in and logs out again (choice 5); the three attempts of the
  login that follows fail, and \<open>run\<close> leaves its inner loop only, so that the menu
  goes on. A sale is opened, one unit of rice is added and 6000 is paid for a total of
  528: the program ends with \<open>AttributeError\<close>, and the unit of rice is still in the
  cart and off the shelf. The login that fails when the program starts ends \<open>run\<close>.
\<close>

theorem checkout_without_user_raises:
  "run console 8 (unattended (empty_cart shelf))
     [''adowner'', ''moneyo'',
      ''5'', ''x'', ''x'', ''x'', ''x'', ''x'', ''x'',
      ''1'', ''1'', [], ''101'', ''1'',
      ''4'', ''6000''] =
   Raise AttributeError (unattended (rice 1 [])) \<and>
   run console 8 (unattended (empty_cart shelf)) [''x'', ''x'', ''x'', ''x'', ''x'', ''x''] =
   Return () (unattended (empty_cart shelf)) []"
  by (simp add: run_def login_three main_menu_numeral main_menu_body_def unattended_def
      fuel_numeral run_defs)

text \<open>
  The override of \<open>payment_options\<close> puts the cashier back as soon as
  \<open>remove_item_fr_cart\<close> has returned, whether or not it removed anything.
\<close>

lemma override_restores_user:
  assumes "current_user pos = Some u" and "\<not> has_permission u ''admin''"
    and "py_lower L ans \<in> {''yes'', ''y''}"
    and "admin_login L pos ins = Return True pos1 ins1"
    and "remove_item_fr_cart L n pos1 ins1 = Return removed pos2 ins2"
  shows "payment_options L (Suc n) pos (''2'' # ans # ins) =
           (if removed then checkout_loop L n (pos2\<lparr>current_user := Some u\<rparr>) ins2
            else payment_options L n (pos2\<lparr>current_user := Some u\<rparr>) ins2)"
  using assms by (simp add: unroll)

lemma shelf_restored:
  "shelf(101 := \<lparr>pid = 101, pname = ''Rice (5lb)'', price = 480, stock = 25,
                   category = ''Groceries''\<rparr>) = shelf"
  by (auto simp: fun_eq_iff shelf_def)

text \<open>
  C9. The override for a cashier whose payment fell short should cover one removal.
  In the run below the cashier \<open>adowner\<close> has one unit of rice in the cart, pays 0,
  asks for a removal and lets the administrator log in. The removal empties the cart,
  and \<open>remove_item_fr_cart\<close> then opens a new sale before it returns: in that sale
  two units are added and one more is removed, which \<open>new_sale\<close> allows because the
  administrator is still the current user, and the sale is cancelled. Only then is the
  cashier put back. The console shows two removals and the receipt in the cashier's name.
  The second statement is the same sale typed by the cashier alone: the removal is
  refused.
\<close>

theorem admin_override_covers_nested_sale:
  "checkout console 9 (register (rice 1 []))
     [''0'', ''2'', ''yes'', ''admin'', ''admin123'', [], ''101'', ''1'',
      ''1'', [], ''101'', ''2'',
      ''2'', [], ''101'', ''1'',
      ''5'', ''yes'',
      ''0''] =
   Return True
     (register ((empty_cart shelf)
        \<lparr>out := [Removed 1 101 0, Removed 1 101 1,
                  Receipt ''adowner'' [] 0 0 (PyBool False) 0 0 0]\<rparr>))
     [] \<and>
   new_sale console 5 (register (empty_cart shelf))
     [''1'', [], ''101'', ''2'', ''2'', ''5'', ''yes''] =
   Return () (register ((empty_cart shelf)\<lparr>out := [AccessDenied]\<rparr>)) []"
  by (simp add: fuel_numeral run_defs shelf_restored)

end
